theory Spec2Isabelle
  imports Main "HOL-Library.AList"
begin

section \<open>The Prokka module of MultiQC: data model\<close>

text \<open>
  The development embeds \<^verbatim>\<open>multiqc/modules/prokka/prokka.py\<close>. Python strings are
  modelled as \<^typ>\<open>string\<close>, one \<^typ>\<open>char\<close> per code point, so the model covers
  text whose code points are below 256. Python integers are \<^typ>\<open>int\<close>. A file handle
  is the sequence of lines that \<^verbatim>\<open>readline\<close> and iteration yield, each line with its
  terminator when the file has one there. Dictionaries keep insertion order, so they
  are association lists written with \<^const>\<open>AList.update\<close>: an existing key keeps its
  place and gets the new value, a new key goes to the end. The module is read as Python 3
  code: the keyword argument \<^verbatim>\<open>maxsplit\<close> of \<^verbatim>\<open>str.split\<close> needs it. The state that
  the parser changes is the table \<^verbatim>\<open>self.prokka\<close> together with the lines the module
  logs; it is returned also when an exception is raised, as the dictionary is changed in
  place.
\<close>

datatype error = ValueError | IndexError | KeyError | UserWarning

datatype pyval = PyStr string | PyInt int

type_synonym sample_record = "(string \<times> pyval) list"

type_synonym table = "(string \<times> sample_record) list"

datatype log_entry =
    Appears_prokka string
  | Found_sample string string
  | Unable_to_parse string
  | Could_not_find
  | Found_logs nat

record log_file =
  fh_name :: string
  fh_lines :: "string list"

record mstate =
  prokka :: table
  log :: "log_entry list"

definition log_debug :: "log_entry \<Rightarrow> mstate \<Rightarrow> mstate" where
  "log_debug e st = st\<lparr>log := log st @ [e]\<rparr>"

definition log_info :: "log_entry \<Rightarrow> mstate \<Rightarrow> mstate" where
  "log_info e st = st\<lparr>log := log st @ [e]\<rparr>"

section \<open>Python string operations\<close>

text \<open>\<^verbatim>\<open>str.isspace\<close> on one character, for code points below 256.\<close>

definition isspace :: "char \<Rightarrow> bool" where
  "isspace c = (c \<in> set [CHR 0x09, CHR 0x0A, CHR 0x0B, CHR 0x0C, CHR 0x0D,
                          CHR 0x1C, CHR 0x1D, CHR 0x1E, CHR 0x1F, CHR '' '',
                          CHR 0x85, CHR 0xA0])"

text \<open>
  The characters \<^verbatim>\<open>int()\<close> skips at both ends of its argument: the ASCII white space
  of the C locale, and the two non-ASCII spaces below 256, which it first rewrites to a
  blank. The separators \<^verbatim>\<open>\x1c\<close> to \<^verbatim>\<open>\x1f\<close> are not among them.
\<close>

definition int_space :: "char \<Rightarrow> bool" where
  "int_space c = (c \<in> set [CHR 0x09, CHR 0x0A, CHR 0x0B, CHR 0x0C, CHR 0x0D, CHR '' '',
                            CHR 0x85, CHR 0xA0])"

definition startswith :: "string \<Rightarrow> string \<Rightarrow> bool" where
  "startswith s p = (take (length p) s = p)"

text \<open>\<^verbatim>\<open>s.strip()\<close> with no argument.\<close>

definition rstrip :: "string \<Rightarrow> string" where
  "rstrip s = rev (dropWhile isspace (rev s))"

definition strip :: "string \<Rightarrow> string" where
  "strip s = rstrip (dropWhile isspace s)"

text \<open>\<^verbatim>\<open>s.split()\<close> with no argument: the maximal runs of characters that are not white space.\<close>

fun split_ws_acc :: "string \<Rightarrow> string \<Rightarrow> string list" where
  "split_ws_acc cur [] = (if cur = [] then [] else [cur])"
| "split_ws_acc cur (c # cs) =
     (if isspace c then (if cur = [] then split_ws_acc [] cs else cur # split_ws_acc [] cs)
      else split_ws_acc (cur @ [c]) cs)"

definition split_ws :: "string \<Rightarrow> string list" where
  "split_ws s = split_ws_acc [] s"

text \<open>\<^verbatim>\<open>s.split(sep)\<close> for a one-character separator: every occurrence splits.\<close>

fun split_acc :: "char \<Rightarrow> string \<Rightarrow> string \<Rightarrow> string list" where
  "split_acc sep cur [] = [cur]"
| "split_acc sep cur (c # cs) =
     (if c = sep then cur # split_acc sep [] cs else split_acc sep (cur @ [c]) cs)"

definition split :: "char \<Rightarrow> string \<Rightarrow> string list" where
  "split sep s = split_acc sep [] s"

text \<open>\<^verbatim>\<open>s.split(sep, maxsplit=1)\<close>: only the first occurrence splits.\<close>

definition split_max1 :: "char \<Rightarrow> string \<Rightarrow> string list" where
  "split_max1 sep s =
     (if sep \<in> set s then [takeWhile (\<lambda>c. c \<noteq> sep) s, tl (dropWhile (\<lambda>c. c \<noteq> sep) s)]
      else [s])"

text \<open>\<^verbatim>\<open>sep.join(xs)\<close>.\<close>

fun join :: "string \<Rightarrow> string list \<Rightarrow> string" where
  "join sep [] = []"
| "join sep [x] = x"
| "join sep (x # y # ys) = x @ sep @ join sep (y # ys)"

text \<open>\<^verbatim>\<open>xs[i]\<close> for an index that is not negative.\<close>

definition index :: "'a list \<Rightarrow> nat \<Rightarrow> error + 'a" where
  "index xs i = (if i < length xs then Inr (xs ! i) else Inl IndexError)"

section \<open>Python's integer conversion\<close>

text \<open>
  \<^verbatim>\<open>int(s)\<close> in base ten: white space at both ends is skipped, one sign is allowed, then
  come decimal digits, where single underscores may stand between two digits. Anything
  else raises \<^verbatim>\<open>ValueError\<close>, here \<^const>\<open>None\<close>. The limit on the number of digits
  that recent interpreters apply is not modelled.
\<close>

definition isdigit :: "char \<Rightarrow> bool" where
  "isdigit c = (c \<in> set ''0123456789'')"

definition digit_val :: "char \<Rightarrow> nat" where
  "digit_val c = of_char c - 48"

fun digits_acc :: "nat \<Rightarrow> string \<Rightarrow> nat option" where
  "digits_acc acc [] = Some acc"
| "digits_acc acc [c] = (if isdigit c then Some (10 * acc + digit_val c) else None)"
| "digits_acc acc (c # d # ds) =
     (if isdigit c then digits_acc (10 * acc + digit_val c) (d # ds)
      else if c = CHR ''_'' \<and> isdigit d then digits_acc (10 * acc + digit_val d) ds
      else None)"

definition digits :: "string \<Rightarrow> nat option" where
  "digits s = (case s of [] \<Rightarrow> None
               | c # cs \<Rightarrow> if isdigit c then digits_acc (digit_val c) cs else None)"

definition py_int :: "string \<Rightarrow> int option" where
  "py_int s =
     (case rev (dropWhile int_space (rev (dropWhile int_space s))) of
        [] \<Rightarrow> None
      | c # cs \<Rightarrow>
          if c = CHR ''-'' then map_option (\<lambda>n. - int n) (digits cs)
          else if c = CHR ''+'' then map_option int (digits cs)
          else map_option int (digits (c # cs)))"

section \<open>The parser\<close>

text \<open>\<^verbatim>\<open>f.readline()\<close>: the next line and the rest, the empty string at the end of the file.\<close>

definition readline :: "string list \<Rightarrow> string \<times> string list" where
  "readline ls = (case ls of [] \<Rightarrow> ([], []) | l # rest \<Rightarrow> (l, rest))"

text \<open>The gate of \<^verbatim>\<open>parse_prokka\<close> on the first three lines.\<close>

definition recognized :: "log_file \<Rightarrow> bool" where
  "recognized f =
     (let (first_line, r1) = readline (fh_lines f);
          (contigs_line, r2) = readline r1;
          (bases_line, r3) = readline r2
      in startswith first_line ''organism:'' \<and> startswith contigs_line ''contigs:''
         \<and> startswith bases_line ''bases:'')"

text \<open>\<^verbatim>\<open>" ".join(first_line.strip().split(":", maxsplit=1)[1].split()[:2])\<close>\<close>

definition organism_of :: "string \<Rightarrow> error + string" where
  "organism_of first_line =
     (case index (split_max1 CHR '':'' (strip first_line)) 1 of
        Inl e \<Rightarrow> Inl e
      | Inr rest \<Rightarrow> Inr (join '' '' (take 2 (split_ws rest))))"

text \<open>\<^verbatim>\<open>" ".join(first_line.split()[3:])\<close>\<close>

definition s_name_of :: "string \<Rightarrow> string" where
  "s_name_of first_line = join '' '' (drop 3 (split_ws first_line))"

text \<open>\<^verbatim>\<open>int(line.split(":")[1])\<close>, for the second and the third line.\<close>

definition header_int :: "string \<Rightarrow> error + int" where
  "header_int line =
     (case index (split CHR '':'' line) 1 of
        Inl e \<Rightarrow> Inl e
      | Inr v \<Rightarrow> (case py_int v of None \<Rightarrow> Inl ValueError | Some n \<Rightarrow> Inr n))"

text \<open>\<^verbatim>\<open>self.prokka[s_name][k] = v\<close>: the record is looked up, then written.\<close>

definition set_field :: "string \<Rightarrow> string \<Rightarrow> pyval \<Rightarrow> mstate \<Rightarrow> (error + unit) \<times> mstate" where
  "set_field s_name k v st =
     (case map_of (prokka st) s_name of
        None \<Rightarrow> (Inl KeyError, st)
      | Some r \<Rightarrow>
          (Inr (), st\<lparr>prokka := AList.update s_name (AList.update k v r) (prokka st)\<rparr>))"

text \<open>
  The loop over the remaining lines. The tuple assignment from \<^verbatim>\<open>line.split(":")\<close> stands
  before the \<^verbatim>\<open>try\<close>: a line that does not split in exactly two raises there. Inside
  the \<^verbatim>\<open>try\<close>, only the \<^verbatim>\<open>ValueError\<close> of \<^verbatim>\<open>int\<close> is caught.
\<close>

fun parse_rest :: "string \<Rightarrow> string list \<Rightarrow> mstate \<Rightarrow> (error + unit) \<times> mstate" where
  "parse_rest s_name [] st = (Inr (), st)"
| "parse_rest s_name (line # ls) st =
     (case split CHR '':'' line of
        [description, val] \<Rightarrow>
          (case py_int val of
             None \<Rightarrow> parse_rest s_name ls (log_debug (Unable_to_parse line) st)
           | Some n \<Rightarrow>
               (case set_field s_name description (PyInt n) st of
                  (Inl e, st') \<Rightarrow> (Inl e, st')
                | (Inr u, st') \<Rightarrow> parse_rest s_name ls st'))
      | _ \<Rightarrow> (Inl ValueError, st))"

definition parse_prokka :: "log_file \<Rightarrow> mstate \<Rightarrow> (error + unit) \<times> mstate" where
  "parse_prokka f st =
     (let (first_line, r1) = readline (fh_lines f);
          (contigs_line, r2) = readline r1;
          (bases_line, r3) = readline r2
      in if \<not> (startswith first_line ''organism:'' \<and> startswith contigs_line ''contigs:''
                \<and> startswith bases_line ''bases:'')
         then (Inr (), st)
         else
           (let st1 = log_debug (Appears_prokka (fh_name f)) st in
            (case organism_of first_line of
               Inl e \<Rightarrow> (Inl e, st1)
             | Inr organism \<Rightarrow>
                (let s_name = s_name_of first_line;
                     st2 = st1\<lparr>prokka := AList.update s_name [] (prokka st1)\<rparr> in
                 (case set_field s_name ''organism'' (PyStr organism) st2 of
                    (Inl e, st3) \<Rightarrow> (Inl e, st3)
                  | (Inr u, st3) \<Rightarrow>
                     (let st4 = log_debug (Found_sample s_name organism) st3 in
                      (case header_int contigs_line of
                         Inl e \<Rightarrow> (Inl e, st4)
                       | Inr c \<Rightarrow>
                          (case set_field s_name ''contigs'' (PyInt c) st4 of
                             (Inl e, st5) \<Rightarrow> (Inl e, st5)
                           | (Inr u, st5) \<Rightarrow>
                              (case header_int bases_line of
                                 Inl e \<Rightarrow> (Inl e, st5)
                               | Inr b \<Rightarrow>
                                  (case set_field s_name ''bases'' (PyInt b) st5 of
                                     (Inl e, st6) \<Rightarrow> (Inl e, st6)
                                   | (Inr u, st6) \<Rightarrow> parse_rest s_name r3 st6))))))))))"

section \<open>The constructor and the bar plot\<close>

text \<open>
  \<^verbatim>\<open>__init__\<close> parses every file found, raises \<^verbatim>\<open>UserWarning\<close> when the table is
  still empty, and otherwise hands the table to the data file, to the general statistics
  table with its \<^verbatim>\<open>headers\<close>, and to the bar plot with its \<^verbatim>\<open>keys\<close>. Both ordered
  dictionaries are written in the order of their assignments. The collaborators of the
  host framework are outside this module: the report records what they are called with,
  and the plot function is a parameter. The keys of the table are distinct, so
  \<^verbatim>\<open>len(self.prokka)\<close> is the length of the association list.
\<close>

fun parse_all :: "log_file list \<Rightarrow> mstate \<Rightarrow> (error + unit) \<times> mstate" where
  "parse_all [] st = (Inr (), st)"
| "parse_all (f # fs) st =
     (case parse_prokka f st of
        (Inl e, st') \<Rightarrow> (Inl e, st')
      | (Inr u, st') \<Rightarrow> parse_all fs st')"

record header_cfg =
  h_title :: string
  h_description :: string
  h_min :: "int option"
  h_format :: "string option"

definition headers :: "(string \<times> header_cfg) list" where
  "headers =
     [(''organism'', \<lparr>h_title = ''Organism'', h_description = ''Organism'',
                      h_min = None, h_format = None\<rparr>),
      (''bases'', \<lparr>h_title = ''Bases'', h_description = ''Number of bases'',
                   h_min = Some 0, h_format = Some ''{:i}%''\<rparr>),
      (''CDS'', \<lparr>h_title = ''CDS'', h_description = ''Number of CDS'',
                 h_min = Some 0, h_format = Some ''{:i}%''\<rparr>),
      (''tRNA'', \<lparr>h_title = ''tRNA'', h_description = ''Number of tRNA'',
                  h_min = Some 0, h_format = Some ''{:i}%''\<rparr>),
      (''rRNA'', \<lparr>h_title = ''rRNA'', h_description = ''Number of rRNA'',
                  h_min = Some 0, h_format = Some ''{:i}%''\<rparr>),
      (''tmRNA'', \<lparr>h_title = ''tmRNA'', h_description = ''Number of tmRNA'',
                   h_min = Some 0, h_format = Some ''{:i}%''\<rparr>),
      (''sig_peptide'', \<lparr>h_title = ''sig_peptide'', h_description = ''Number of sig_peptide'',
                         h_min = Some 0, h_format = Some ''{:i}%''\<rparr>)]"

definition keys :: "(string \<times> string) list" where
  "keys = [(''CDS'', ''CDS''), (''rRNA'', ''rRNA''), (''tRNA'', ''tRNA''), (''tmRNA'', ''tmRNA''),
           (''misc_RNA'', ''misc RNA''), (''sig_peptide'', ''Signaling peptides'')]"

definition pconfig :: "(string \<times> string) list" where
  "pconfig = [(''id'', ''prokka_plot''), (''title'', ''Prokka''), (''ylab'', ''# Counts''),
              (''cpswitch_counts_label'', ''Features'')]"

definition prokka_barplot ::
  "(table \<Rightarrow> (string \<times> string) list \<Rightarrow> (string \<times> string) list \<Rightarrow> 'h) \<Rightarrow> mstate \<Rightarrow> 'h" where
  "prokka_barplot plot st = plot (prokka st) keys pconfig"

record 'h module_report =
  data_file :: "table \<times> string"
  general_stats_data :: table
  general_stats_headers :: "(string \<times> header_cfg) list"
  intro :: 'h

definition init ::
  "(table \<Rightarrow> (string \<times> string) list \<Rightarrow> (string \<times> string) list \<Rightarrow> 'h) \<Rightarrow> log_file list
     \<Rightarrow> (error + 'h module_report) \<times> mstate" where
  "init plot files =
     (case parse_all files \<lparr>prokka = [], log = []\<rparr> of
        (Inl e, st) \<Rightarrow> (Inl e, st)
      | (Inr u, st) \<Rightarrow>
          if length (prokka st) = 0 then (Inl UserWarning, log_debug Could_not_find st)
          else
            (let st' = log_info (Found_logs (length (prokka st))) st in
             (Inr \<lparr>data_file = (prokka st', ''multiqc_prokka''),
                   general_stats_data = prokka st',
                   general_stats_headers = headers,
                   intro = prokka_barplot plot st'\<rparr>, st')))"

text \<open>\<^verbatim>\<open>self.prokka[s_name][k]\<close> as a lookup that may find nothing.\<close>

definition get_field :: "table \<Rightarrow> string \<Rightarrow> string \<Rightarrow> pyval option" where
  "get_field tbl s_name k = (case map_of tbl s_name of None \<Rightarrow> None | Some r \<Rightarrow> map_of r k)"

section \<open>The extraction rule in the words of the specification\<close>

text \<open>
  The text after the first colon of a line, its first two white-space tokens joined by
  one blank, and the tokens of the whole line from the fourth on.
\<close>

definition after_first_colon :: "string \<Rightarrow> string" where
  "after_first_colon s = tl (dropWhile (\<lambda>c. c \<noteq> CHR '':'') s)"

definition spec_organism :: "string \<Rightarrow> string" where
  "spec_organism first_line = join '' '' (take 2 (split_ws (after_first_colon first_line)))"

definition spec_sample_id :: "string \<Rightarrow> string" where
  "spec_sample_id first_line = join '' '' (drop 3 (split_ws first_line))"

section \<open>The category series of the chart\<close>

text \<open>
  Modelled from the spec: the bar graph of the host framework
  (\<^verbatim>\<open>plots.bargraph.plot\<close>) is not part of this module. The specification describes
  what it does with the categories as \<^verbatim>\<open>category_series\<close>: for one sample, the mapping
  restricted to the listed categories, in the order of the list.
\<close>

definition category_series :: "string list \<Rightarrow> sample_record \<Rightarrow> (string \<times> pyval) list" where
  "category_series cats r = List.map_filter (\<lambda>k. map_option (Pair k) (map_of r k)) cats"

section \<open>Properties of tables\<close>

text \<open>
  Every field other than \<^verbatim>\<open>organism\<close> is an integer that is not negative; every record
  has the field \<^verbatim>\<open>contigs\<close>.
\<close>

definition nonneg_fields :: "sample_record \<Rightarrow> bool" where
  "nonneg_fields r =
     (\<forall>(k, v)\<in>set r. k \<noteq> ''organism'' \<longrightarrow> (case v of PyInt n \<Rightarrow> 0 \<le> n | PyStr s \<Rightarrow> False))"

definition table_nonneg :: "table \<Rightarrow> bool" where
  "table_nonneg tbl = (\<forall>(s, r)\<in>set tbl. nonneg_fields r)"

definition has_contigs :: "table \<Rightarrow> bool" where
  "has_contigs tbl = (\<forall>(s, r)\<in>set tbl. ''contigs'' \<in> fst ` set r)"

text \<open>The text \<open>v\<close> has a minus sign as its first character after the white space that
  \<^verbatim>\<open>int\<close> skips.\<close>

definition minus_signed :: "string \<Rightarrow> bool" where
  "minus_signed v = (case dropWhile int_space v of [] \<Rightarrow> False | c # cs \<Rightarrow> c = CHR ''-'')"

section \<open>The record of one file, apart from the table\<close>

text \<open>
  Two functions used in the proofs only. They follow \<^const>\<open>parse_rest\<close> and the part of
  \<^const>\<open>parse_prokka\<close> behind the gate on the record of the file alone, and give the
  outcome together with the record as it stands when the parser returns or raises.
\<close>

fun rest_record :: "string list \<Rightarrow> sample_record \<Rightarrow> (error + unit) \<times> sample_record" where
  "rest_record [] r = (Inr (), r)"
| "rest_record (line # ls) r =
     (case split CHR '':'' line of
        [description, val] \<Rightarrow>
          (case py_int val of
             None \<Rightarrow> rest_record ls r
           | Some n \<Rightarrow> rest_record ls (AList.update description (PyInt n) r))
      | _ \<Rightarrow> (Inl ValueError, r))"

definition header_record ::
  "string \<Rightarrow> string \<Rightarrow> string \<Rightarrow> string list \<Rightarrow> (error + unit) \<times> sample_record" where
  "header_record first_line contigs_line bases_line rest =
     (let r1 = [(''organism'', PyStr (spec_organism first_line))] in
      (case header_int contigs_line of
         Inl e \<Rightarrow> (Inl e, r1)
       | Inr c \<Rightarrow>
          (let r2 = AList.update ''contigs'' (PyInt c) r1 in
           (case header_int bases_line of
              Inl e \<Rightarrow> (Inl e, r2)
            | Inr b \<Rightarrow> rest_record rest (AList.update ''bases'' (PyInt b) r2)))))"

section \<open>Example inputs\<close>

definition nl :: string where
  "nl = [CHR 0x0A]"

definition empty_state :: mstate where
  "empty_state = \<lparr>prokka = [], log = []\<rparr>"

definition ecoli_report :: log_file where
  "ecoli_report = \<lparr>fh_name = ''ecoli.txt'', fh_lines =
     [''organism: Escherichia coli strain K12_sample1'' @ nl, ''contigs: 5'' @ nl,
      ''bases: 4641652'' @ nl, ''CDS:4289'' @ nl, ''rRNA:22'' @ nl, ''tRNA:86'' @ nl]\<rparr>"

definition wrong_case_report :: log_file where
  "wrong_case_report = \<lparr>fh_name = ''other.txt'', fh_lines =
     [''Organism: Escherichia coli strain K12_sample1'' @ nl, ''contigs: 5'' @ nl,
      ''bases: 4641652'' @ nl]\<rparr>"

definition bad_contigs_report :: log_file where
  "bad_contigs_report = \<lparr>fh_name = ''bad.txt'', fh_lines =
     [''organism: Escherichia coli strain S1'' @ nl, ''contigs: five'' @ nl,
      ''bases: 4641652'' @ nl]\<rparr>"

definition first_report :: log_file where
  "first_report = \<lparr>fh_name = ''a.txt'', fh_lines =
     [''organism: Escherichia coli strain S1'' @ nl, ''contigs: 5'' @ nl,
      ''bases: 100'' @ nl, ''CDS:1'' @ nl]\<rparr>"

definition second_report :: log_file where
  "second_report = \<lparr>fh_name = ''b.txt'', fh_lines =
     [''organism: Bacillus subtilis strain S1'' @ nl, ''contigs: 7'' @ nl,
      ''bases: 200'' @ nl, ''rRNA:2'' @ nl]\<rparr>"

definition negative_cds_report :: log_file where
  "negative_cds_report = \<lparr>fh_name = ''neg.txt'', fh_lines =
     [''organism: Escherichia coli strain S1'' @ nl, ''contigs: 5'' @ nl,
      ''bases: 100'' @ nl, ''CDS:-5'' @ nl]\<rparr>"

definition redefining_report :: log_file where
  "redefining_report = \<lparr>fh_name = ''redef.txt'', fh_lines =
     [''organism: Escherichia coli strain S1'' @ nl, ''contigs: 5'' @ nl,
      ''bases: 100'' @ nl, ''CDS:1'' @ nl, ''organism:7'' @ nl, '' CDS:5'' @ nl]\<rparr>"

definition no_colon_report :: log_file where
  "no_colon_report = \<lparr>fh_name = ''nocolon.txt'', fh_lines =
     [''organism: Escherichia coli strain S1'' @ nl, ''contigs: 5'' @ nl,
      ''bases: 100'' @ nl, ''CDS:1'' @ nl, ''misc feature 3'' @ nl, ''tRNA:86'' @ nl]\<rparr>"

definition two_colon_report :: log_file where
  "two_colon_report = \<lparr>fh_name = ''twocolon.txt'', fh_lines =
     [''organism: Escherichia coli strain S1'' @ nl, ''contigs: 5'' @ nl,
      ''bases: 100'' @ nl, ''gene:rpoB:1'' @ nl, ''tRNA:86'' @ nl]\<rparr>"

definition not_integer_report :: log_file where
  "not_integer_report = \<lparr>fh_name = ''notint.txt'', fh_lines =
     [''organism: Escherichia coli strain S1'' @ nl, ''contigs: 5'' @ nl,
      ''bases: 100'' @ nl, ''sig_peptide:notanumber'' @ nl, ''tRNA:86'' @ nl]\<rparr>"

text \<open>A plot function for the examples: the number of samples it is given.\<close>

definition count_plot :: "table \<Rightarrow> (string \<times> string) list \<Rightarrow> (string \<times> string) list \<Rightarrow> nat" where
  "count_plot tbl ks cfg = length tbl"

section \<open>String lemmas\<close>

lemma split_ws_acc_spaces:
  "\<forall>c\<in>set ws. isspace c \<Longrightarrow> split_ws_acc cur ws = (if cur = [] then [] else [cur])"
  by (induction ws arbitrary: cur) auto

lemma split_ws_acc_trailing:
  "\<forall>c\<in>set ws. isspace c \<Longrightarrow> split_ws_acc cur (s @ ws) = split_ws_acc cur s"
  by (induction s arbitrary: cur) (auto simp: split_ws_acc_spaces)

lemma rstrip_decomp: "\<exists>ws. s = rstrip s @ ws \<and> (\<forall>c\<in>set ws. isspace c)"
proof -
  have "rev s = takeWhile isspace (rev s) @ dropWhile isspace (rev s)" by simp
  then have "s = rev (dropWhile isspace (rev s)) @ rev (takeWhile isspace (rev s))"
    by (metis rev_append rev_rev_ident)
  moreover have "\<forall>c\<in>set (rev (takeWhile isspace (rev s))). isspace c"
    by (auto dest: set_takeWhileD)
  ultimately show ?thesis unfolding rstrip_def by blast
qed

lemma split_ws_rstrip: "split_ws (rstrip s) = split_ws s"
proof -
  obtain ws where "s = rstrip s @ ws" "\<forall>c\<in>set ws. isspace c"
    using rstrip_decomp by blast
  then show ?thesis
    unfolding split_ws_def using split_ws_acc_trailing by metis
qed

lemma rstrip_append:
  "p \<noteq> [] \<Longrightarrow> \<not> isspace (last p) \<Longrightarrow> rstrip (p @ s) = p @ rstrip s"
proof -
  assume p: "p \<noteq> []" "\<not> isspace (last p)"
  then have "dropWhile isspace (rev p) = rev p"
    by (cases p rule: rev_cases) auto
  then show ?thesis
    unfolding rstrip_def by (simp add: dropWhile_append)
qed

lemma startswith_append: "startswith s p \<Longrightarrow> \<exists>t. s = p @ t"
  unfolding startswith_def by (metis append_take_drop_id)

lemma organism_of_prefixed:
  "organism_of (''organism:'' @ t) = Inr (spec_organism (''organism:'' @ t))"
proof -
  have ns: "\<not> isspace CHR ''o''" "\<not> isspace CHR '':''" by (simp_all add: isspace_def)
  have "strip (''organism:'' @ t) = ''organism:'' @ rstrip t"
    unfolding strip_def using ns rstrip_append [of "''organism:''" t] by simp
  then show ?thesis
    by (simp add: organism_of_def split_max1_def index_def spec_organism_def
        after_first_colon_def split_ws_rstrip)
qed

section \<open>The parser and the record of a file\<close>

lemma set_field_present:
  "map_of (prokka st) s = Some r \<Longrightarrow>
   set_field s k v st = (Inr (), st\<lparr>prokka := AList.update s (AList.update k v r) (prokka st)\<rparr>)"
  by (simp add: set_field_def)

lemma parse_rest_sim:
  "map_of (prokka st) s = Some r \<Longrightarrow>
   fst (parse_rest s ls st) = fst (rest_record ls r) \<and>
   prokka (snd (parse_rest s ls st)) = AList.update s (snd (rest_record ls r)) (prokka st)"
proof (induction ls arbitrary: st r)
  case Nil
  then show ?case by (simp add: update_triv)
next
  case (Cons line ls)
  show ?case
  proof (cases "\<exists>d v. split CHR '':'' line = [d, v]")
    case False
    then have "parse_rest s (line # ls) st = (Inl ValueError, st)"
      and "rest_record (line # ls) r = (Inl ValueError, r)"
      by (auto split: list.splits)
    with Cons.prems show ?thesis by (simp add: update_triv)
  next
    case True
    then obtain d v where dv: "split CHR '':'' line = [d, v]" by blast
    show ?thesis
    proof (cases "py_int v")
      case None
      have "map_of (prokka (log_debug (Unable_to_parse line) st)) s = Some r"
        using Cons.prems by (simp add: log_debug_def)
      from Cons.IH [OF this] show ?thesis
        using dv None by (simp add: log_debug_def)
    next
      case (Some n)
      let ?st' = "st\<lparr>prokka := AList.update s (AList.update d (PyInt n) r) (prokka st)\<rparr>"
      have "map_of (prokka ?st') s = Some (AList.update d (PyInt n) r)"
        by (simp add: update_conv')
      from Cons.IH [OF this] show ?thesis
        using dv Some set_field_present [OF Cons.prems] by simp
    qed
  qed
qed

lemma parse_rest_log_mono:
  "e \<in> set (log st) \<Longrightarrow> e \<in> set (log (snd (parse_rest s ls st)))"
proof (induction ls arbitrary: st)
  case Nil
  then show ?case by simp
next
  case (Cons line ls)
  have a: "e \<in> set (log (log_debug (Unable_to_parse line) st))"
    using Cons.prems by (simp add: log_debug_def)
  have b: "\<And>k v st'. set_field s k v st = (Inr (), st') \<Longrightarrow> e \<in> set (log st')"
    using Cons.prems by (auto simp: set_field_def split: option.splits)
  have c: "\<And>k v st' x. set_field s k v st = (Inl x, st') \<Longrightarrow> e \<in> set (log st')"
    using Cons.prems by (auto simp: set_field_def split: option.splits)
  show ?case
    using Cons.prems Cons.IH [OF a] Cons.IH [OF b] c
    by (auto split: list.splits option.splits sum.splits prod.splits)
qed

lemma recognized_iff:
  "recognized f \<longleftrightarrow>
     (\<exists>l1 l2 l3 rest. fh_lines f = l1 # l2 # l3 # rest \<and> startswith l1 ''organism:''
        \<and> startswith l2 ''contigs:'' \<and> startswith l3 ''bases:'')"
  by (auto simp: recognized_def readline_def startswith_def split: list.splits)

lemma parse_prokka_unrecognized: "\<not> recognized f \<Longrightarrow> parse_prokka f st = (Inr (), st)"
  by (auto simp: recognized_def parse_prokka_def split: prod.splits)

lemma parse_prokka_unfold:
  fixes f :: log_file and st :: mstate and l1 :: string
  assumes f: "fh_lines f = l1 # l2 # l3 # rest"
    and g: "startswith l1 ''organism:''" "startswith l2 ''contigs:''" "startswith l3 ''bases:''"
  defines "s \<equiv> s_name_of l1" and "org \<equiv> spec_organism l1"
  defines "st4 \<equiv> log_debug (Found_sample s org)
                   ((log_debug (Appears_prokka (fh_name f)) st)
                      \<lparr>prokka := AList.update s [(''organism'', PyStr org)] (prokka st)\<rparr>)"
  shows "parse_prokka f st =
     (case header_int l2 of
        Inl e \<Rightarrow> (Inl e, st4)
      | Inr c \<Rightarrow>
         (case header_int l3 of
            Inl e \<Rightarrow> (Inl e, st4\<lparr>prokka := AList.update s [(''organism'', PyStr org), (''contigs'', PyInt c)] (prokka st)\<rparr>)
          | Inr b \<Rightarrow> parse_rest s rest
               (st4\<lparr>prokka := AList.update s [(''organism'', PyStr org), (''contigs'', PyInt c), (''bases'', PyInt b)] (prokka st)\<rparr>)))"
proof -
  obtain t where t: "l1 = ''organism:'' @ t" using g(1) startswith_append by blast
  have org: "organism_of l1 = Inr org"
    unfolding org_def t by (rule organism_of_prefixed)
  let ?st1 = "log_debug (Appears_prokka (fh_name f)) st"
  let ?st2 = "?st1\<lparr>prokka := AList.update s [] (prokka ?st1)\<rparr>"
  have m2: "map_of (prokka ?st2) s = Some []" by (simp add: update_conv')
  have sf1: "set_field s ''organism'' (PyStr org) ?st2 =
      (Inr (), ?st1\<lparr>prokka := AList.update s [(''organism'', PyStr org)] (prokka st)\<rparr>)"
    using set_field_present [OF m2] by (simp add: log_debug_def)
  have m4: "map_of (prokka st4) s = Some [(''organism'', PyStr org)]"
    by (simp add: st4_def log_debug_def update_conv')
  have sf2: "\<And>c. set_field s ''contigs'' (PyInt c) st4 =
      (Inr (), st4\<lparr>prokka := AList.update s [(''organism'', PyStr org), (''contigs'', PyInt c)] (prokka st)\<rparr>)"
    using set_field_present [OF m4] by (simp add: st4_def log_debug_def)
  have sf3: "\<And>c b. set_field s ''bases'' (PyInt b)
        (st4\<lparr>prokka := AList.update s [(''organism'', PyStr org), (''contigs'', PyInt c)] (prokka st)\<rparr>) =
      (Inr (), st4\<lparr>prokka := AList.update s [(''organism'', PyStr org), (''contigs'', PyInt c), (''bases'', PyInt b)] (prokka st)\<rparr>)"
    by (simp add: set_field_def update_conv')
  show ?thesis
    unfolding parse_prokka_def
    using f g org sf1 sf2 sf3
    by (simp add: readline_def Let_def s_def [symmetric] st4_def [symmetric] split: sum.splits)
qed

lemma parse_prokka_sim:
  fixes f :: log_file and st :: mstate
  assumes f: "fh_lines f = l1 # l2 # l3 # rest"
    and g: "startswith l1 ''organism:''" "startswith l2 ''contigs:''" "startswith l3 ''bases:''"
  shows "fst (parse_prokka f st) = fst (header_record l1 l2 l3 rest) \<and>
         prokka (snd (parse_prokka f st)) =
           AList.update (s_name_of l1) (snd (header_record l1 l2 l3 rest)) (prokka st)"
proof (cases "header_int l2")
  case (Inl e)
  then show ?thesis
    using parse_prokka_unfold [OF f g, of st]
    by (simp add: header_record_def log_debug_def)
next
  case c: (Inr c)
  show ?thesis
  proof (cases "header_int l3")
    case (Inl e)
    then show ?thesis
      using c parse_prokka_unfold [OF f g, of st]
      by (simp add: header_record_def log_debug_def)
  next
    case b: (Inr b)
    let ?s = "s_name_of l1"
    let ?r = "[(''organism'', PyStr (spec_organism l1)), (''contigs'', PyInt c), (''bases'', PyInt b)]"
    let ?st6 = "(log_debug (Found_sample ?s (spec_organism l1))
                   ((log_debug (Appears_prokka (fh_name f)) st)
                      \<lparr>prokka := AList.update ?s [(''organism'', PyStr (spec_organism l1))] (prokka st)\<rparr>))
                 \<lparr>prokka := AList.update ?s ?r (prokka st)\<rparr>"
    have pp: "parse_prokka f st = parse_rest ?s rest ?st6"
      using b c parse_prokka_unfold [OF f g, of st] by simp
    have m: "map_of (prokka ?st6) ?s = Some ?r" by (simp add: update_conv')
    have hr: "header_record l1 l2 l3 rest = rest_record rest ?r"
      using b c by (simp add: header_record_def)
    show ?thesis
      using parse_rest_sim [OF m, of rest] by (simp add: pp hr)
  qed
qed

lemma parse_prokka_log:
  fixes f :: log_file and st :: mstate
  assumes f: "fh_lines f = l1 # l2 # l3 # rest"
    and g: "startswith l1 ''organism:''" "startswith l2 ''contigs:''" "startswith l3 ''bases:''"
  shows "Found_sample (s_name_of l1) (spec_organism l1) \<in> set (log (snd (parse_prokka f st)))"
  using parse_prokka_unfold [OF f g, of st]
  by (auto simp: log_debug_def intro!: parse_rest_log_mono split: sum.splits)

lemma rest_record_keys:
  "k \<in> fst ` set r \<Longrightarrow> k \<in> fst ` set (snd (rest_record ls r))"
proof (induction ls arbitrary: r)
  case Nil
  then show ?case by simp
next
  case (Cons line ls)
  have "\<And>d v. k \<in> fst ` set (AList.update d v r)"
    using Cons.prems by (simp add: dom_update)
  with Cons show ?case
    by (auto split: list.splits option.splits)
qed

lemma rest_record_result: "fst (rest_record ls r) = Inr () \<or> fst (rest_record ls r) = Inl ValueError"
  by (induction ls arbitrary: r) (auto split: list.splits option.splits)

lemma header_int_result: "header_int l = Inl e \<Longrightarrow> e = ValueError \<or> e = IndexError"
  by (auto simp: header_int_def index_def split: if_splits option.splits)

lemma header_record_result: "fst (header_record l1 l2 l3 rest) \<noteq> Inl UserWarning"
proof -
  have "fst (rest_record ls r) \<noteq> Inl UserWarning" for ls r
    using rest_record_result [of ls r] by auto
  then show ?thesis
    by (auto simp: header_record_def Let_def dest: header_int_result split: sum.splits)
qed

lemma header_record_complete:
  assumes "fst (header_record l1 l2 l3 rest) = Inr ()"
  shows "{''organism'', ''contigs'', ''bases''} \<subseteq> fst ` set (snd (header_record l1 l2 l3 rest))"
proof -
  obtain c b where cb: "header_int l2 = Inr c" "header_int l3 = Inr b"
    using assms by (auto simp: header_record_def Let_def split: sum.splits)
  let ?r = "[(''organism'', PyStr (spec_organism l1)), (''contigs'', PyInt c), (''bases'', PyInt b)]"
  have hr: "header_record l1 l2 l3 rest = rest_record rest ?r"
    using cb by (simp add: header_record_def)
  have "k \<in> fst ` set ?r \<Longrightarrow> k \<in> fst ` set (snd (header_record l1 l2 l3 rest))" for k
    unfolding hr by (rule rest_record_keys)
  then show ?thesis by simp
qed

lemma split_acc_nonempty: "split_acc sep cur s \<noteq> []"
  by (induction s arbitrary: cur) auto

lemma split_acc_one: "split_acc sep cur s = [b] \<Longrightarrow> cur @ s = b"
proof (induction s arbitrary: cur)
  case Nil
  then show ?case by simp
next
  case (Cons c cs)
  show ?case
  proof (cases "c = sep")
    case True
    with Cons.prems show ?thesis by (simp add: split_acc_nonempty)
  next
    case False
    with Cons.prems have "split_acc sep (cur @ [c]) cs = [b]" by simp
    from Cons.IH [OF this] show ?thesis by simp
  qed
qed

lemma split_acc_two: "split_acc sep cur s = [a, b] \<Longrightarrow> cur @ s = a @ sep # b"
proof (induction s arbitrary: cur)
  case Nil
  then show ?case by simp
next
  case (Cons c cs)
  show ?case
  proof (cases "c = sep")
    case True
    with Cons.prems have "cur = a" "split_acc sep [] cs = [b]" by simp_all
    then show ?thesis using True split_acc_one [of sep "[]" cs b] by simp
  next
    case False
    with Cons.prems have "split_acc sep (cur @ [c]) cs = [a, b]" by simp
    from Cons.IH [OF this] show ?thesis by simp
  qed
qed

lemma split_two: "split sep l = [d, v] \<Longrightarrow> l = d @ sep # v"
  unfolding split_def using split_acc_two [of sep "[]" l d v] by simp

lemma split_two_startswith: "split sep l = [d, v] \<Longrightarrow> startswith l (d @ [sep])"
  by (auto simp: startswith_def dest: split_two)

lemma rest_record_other:
  "\<forall>l\<in>set ls. \<not> startswith l (k @ '':'') \<Longrightarrow> map_of (snd (rest_record ls r)) k = map_of r k"
proof (induction ls arbitrary: r)
  case Nil
  then show ?case by simp
next
  case (Cons line ls)
  have ne: "split CHR '':'' line = [d, v] \<Longrightarrow> d \<noteq> k" for d v
    using Cons.prems split_two_startswith [of "CHR '':''" line d v] by auto
  have ih: "map_of (snd (rest_record ls r')) k = map_of r' k" for r'
    using Cons by simp
  show ?case
    using ne by (auto simp: ih update_conv' split: list.splits option.splits)
qed

section \<open>Updates of association lists\<close>

lemma set_update_subset: "set (AList.update k v al) \<subseteq> insert (k, v) (set al)"
  by (induction al) auto

section \<open>Lines with one colon\<close>

lemma split_acc_length: "length (split_acc sep cur s) = Suc (count_list s sep)"
  by (induction s arbitrary: cur) auto

lemma split_one_colon:
  assumes "count_list l sep = 1"
  shows "\<exists>a b. split sep l = [a, b]"
proof -
  have "length (split sep l) = 2"
    unfolding split_def using assms by (simp add: split_acc_length)
  then show ?thesis
    by (cases "split sep l" rule: list.exhaust)
      (auto simp: length_Suc_conv numeral_2_eq_2)
qed

lemma split_acc_no_sep: "sep \<notin> set s \<Longrightarrow> split_acc sep cur s = [cur @ s]"
  by (induction s arbitrary: cur) auto

lemma split_acc_first: "sep \<notin> set d \<Longrightarrow> split_acc sep cur (d @ sep # v) = (cur @ d) # split_acc sep [] v"
  by (induction d arbitrary: cur) auto

lemma split_description_value:
  "sep \<notin> set d \<Longrightarrow> sep \<notin> set v \<Longrightarrow> split sep (d @ sep # v) = [d, v]"
  unfolding split_def by (simp add: split_acc_first split_acc_no_sep)

lemma rest_record_append:
  "rest_record (xs @ ys) r =
     (case rest_record xs r of (Inl e, r') \<Rightarrow> (Inl e, r') | (Inr u, r') \<Rightarrow> rest_record ys r')"
  by (induction xs arbitrary: r) (auto split: list.splits option.splits)

lemma rest_record_one_colon:
  "\<forall>l\<in>set ls. count_list l CHR '':'' = 1 \<Longrightarrow> fst (rest_record ls r) = Inr ()"
proof (induction ls arbitrary: r)
  case Nil
  then show ?case by simp
next
  case (Cons line ls)
  then obtain a b where "split CHR '':'' line = [a, b]"
    using split_one_colon [of line "CHR '':''"] by auto
  then show ?case using Cons by (auto split: option.splits)
qed

lemma rest_record_redefines:
  assumes pre: "\<forall>l\<in>set pre. count_list l CHR '':'' = 1"
    and d: "CHR '':'' \<notin> set d" "CHR '':'' \<notin> set v" "py_int v = Some n"
    and post: "\<forall>l\<in>set post. \<not> startswith l (d @ '':'')"
  shows "map_of (snd (rest_record (pre @ [d @ '':'' @ v] @ post) r)) d = Some (PyInt n)"
proof -
  obtain r1 where r1: "rest_record pre r = (Inr (), r1)"
    using rest_record_one_colon [OF pre, of r] by (cases "rest_record pre r") auto
  have sp: "split CHR '':'' (d @ '':'' @ v) = [d, v]"
    using split_description_value [OF d(1,2)] by simp
  have "rest_record (pre @ [d @ '':'' @ v] @ post) r
        = rest_record post (AList.update d (PyInt n) r1)"
    using r1 sp d(3) by (simp add: rest_record_append)
  then show ?thesis
    using rest_record_other [OF post, of "AList.update d (PyInt n) r1"]
    by (simp add: update_conv')
qed

section \<open>The loop over the files\<close>

lemma parse_prokka_returns:
  assumes "parse_prokka f st = (Inr (), st')"
  shows "(\<not> recognized f \<and> st' = st)
       \<or> (recognized f \<and>
            (\<exists>r. prokka st' = AList.update (s_name_of (fst (readline (fh_lines f)))) r (prokka st)
               \<and> {''organism'', ''contigs'', ''bases''} \<subseteq> fst ` set r))"
proof (cases "recognized f")
  case False
  then show ?thesis using assms parse_prokka_unrecognized [of f st] by simp
next
  case True
  then obtain l1 l2 l3 rest where f: "fh_lines f = l1 # l2 # l3 # rest"
    and g: "startswith l1 ''organism:''" "startswith l2 ''contigs:''" "startswith l3 ''bases:''"
    unfolding recognized_iff by blast
  have sim: "fst (parse_prokka f st) = fst (header_record l1 l2 l3 rest)"
    "prokka (snd (parse_prokka f st)) =
       AList.update (s_name_of l1) (snd (header_record l1 l2 l3 rest)) (prokka st)"
    using parse_prokka_sim [OF f g, of st] by simp_all
  have "fst (header_record l1 l2 l3 rest) = Inr ()" using sim(1) assms by simp
  from header_record_complete [OF this] show ?thesis
    using True sim(2) assms f by (auto simp: readline_def)
qed

lemma parse_prokka_no_warning: "fst (parse_prokka f st) \<noteq> Inl UserWarning"
proof (cases "recognized f")
  case False
  then show ?thesis using parse_prokka_unrecognized [of f st] by simp
next
  case True
  then obtain l1 l2 l3 rest where f: "fh_lines f = l1 # l2 # l3 # rest"
    and g: "startswith l1 ''organism:''" "startswith l2 ''contigs:''" "startswith l3 ''bases:''"
    unfolding recognized_iff by blast
  show ?thesis
    using parse_prokka_sim [OF f g, of st] header_record_result [of l1 l2 l3 rest] by simp
qed

lemma parse_prokka_nonempty:
  "recognized f \<or> prokka st \<noteq> [] \<Longrightarrow> prokka (snd (parse_prokka f st)) \<noteq> []"
proof (cases "recognized f")
  case False
  assume "recognized f \<or> prokka st \<noteq> []"
  then show ?thesis using False parse_prokka_unrecognized [of f st] by simp
next
  case True
  then obtain l1 l2 l3 rest where f: "fh_lines f = l1 # l2 # l3 # rest"
    and g: "startswith l1 ''organism:''" "startswith l2 ''contigs:''" "startswith l3 ''bases:''"
    unfolding recognized_iff by blast
  show ?thesis
    using parse_prokka_sim [OF f g, of st] by simp
qed

lemma parse_all_unrecognized:
  "\<forall>f\<in>set files. \<not> recognized f \<Longrightarrow> parse_all files st = (Inr (), st)"
  by (induction files arbitrary: st) (auto simp: parse_prokka_unrecognized)

lemma parse_all_no_warning: "fst (parse_all files st) \<noteq> Inl UserWarning"
proof (induction files arbitrary: st)
  case Nil
  then show ?case by simp
next
  case (Cons f fs)
  show ?case
    using parse_prokka_no_warning [of f st] Cons.IH
    by (cases "parse_prokka f st") (auto split: sum.splits)
qed

lemma parse_all_keeps_nonempty:
  "prokka st \<noteq> [] \<Longrightarrow> prokka (snd (parse_all files st)) \<noteq> []"
proof (induction files arbitrary: st)
  case Nil
  then show ?case by simp
next
  case (Cons f fs)
  have "prokka (snd (parse_prokka f st)) \<noteq> []"
    using Cons.prems parse_prokka_nonempty by blast
  then show ?case
    using Cons.IH [of "snd (parse_prokka f st)"]
    by (cases "parse_prokka f st") (auto split: sum.splits)
qed

lemma parse_all_recognized:
  "\<exists>f\<in>set files. recognized f \<Longrightarrow>
     fst (parse_all files st) \<noteq> Inr () \<or> prokka (snd (parse_all files st)) \<noteq> []"
proof (induction files arbitrary: st)
  case Nil
  then show ?case by simp
next
  case (Cons f fs)
  obtain res st' where p: "parse_prokka f st = (res, st')" by (cases "parse_prokka f st")
  show ?case
  proof (cases res)
    case (Inl e)
    then show ?thesis using p by simp
  next
    case (Inr u)
    show ?thesis
    proof (cases "recognized f")
      case True
      then have "prokka st' \<noteq> []" using parse_prokka_nonempty [of f st] p by simp
      then show ?thesis using p Inr parse_all_keeps_nonempty by simp
    next
      case False
      then have "\<exists>f\<in>set fs. recognized f" using Cons.prems by simp
      from Cons.IH [OF this, of st'] show ?thesis using p Inr by simp
    qed
  qed
qed

section \<open>Categories and columns\<close>

lemma category_series_keys:
  "map fst (category_series cats r) = filter (\<lambda>k. k \<in> fst ` set r) cats"
proof (induction cats)
  case Nil
  then show ?case by (simp add: category_series_def map_filter_simps)
next
  case (Cons k ks)
  have "k \<in> fst ` set r \<longleftrightarrow> map_of r k \<noteq> None"
    by (simp add: map_of_eq_None_iff)
  then show ?case
    using Cons by (auto simp: category_series_def map_filter_simps split: option.splits)
qed

lemma has_contigs_update:
  "has_contigs tbl \<Longrightarrow> ''contigs'' \<in> fst ` set r \<Longrightarrow> has_contigs (AList.update s r tbl)"
  using set_update_subset [of s r tbl] by (auto simp: has_contigs_def)

lemma parse_prokka_has_contigs:
  assumes "has_contigs (prokka st)" and "parse_prokka f st = (Inr (), st')"
  shows "has_contigs (prokka st')"
proof (cases "recognized f")
  case False
  then show ?thesis using assms parse_prokka_returns [OF assms(2)] by simp
next
  case True
  then obtain r where r: "prokka st' = AList.update (s_name_of (fst (readline (fh_lines f)))) r (prokka st)"
    "{''organism'', ''contigs'', ''bases''} \<subseteq> fst ` set r"
    using parse_prokka_returns [OF assms(2)] by blast
  from r(2) have "''contigs'' \<in> fst ` set r" by simp
  with assms(1) show ?thesis unfolding r(1) by (rule has_contigs_update)
qed

lemma parse_all_has_contigs:
  "has_contigs (prokka st) \<Longrightarrow> parse_all files st = (Inr (), st') \<Longrightarrow> has_contigs (prokka st')"
proof (induction files arbitrary: st)
  case Nil
  then show ?case by simp
next
  case (Cons f fs)
  obtain res st1 where p: "parse_prokka f st = (res, st1)" by (cases "parse_prokka f st")
  with Cons.prems(2) have r: "res = Inr ()" "parse_all fs st1 = (Inr (), st')"
    by (auto split: sum.splits)
  have "has_contigs (prokka st1)"
    using parse_prokka_has_contigs [OF Cons.prems(1)] p r(1) by simp
  from Cons.IH [OF this r(2)] show ?case .
qed

section \<open>Where the stored integers come from\<close>

lemma rev_dropWhile_rev_head:
  assumes "rev (dropWhile P (rev xs)) = c # cs"
  shows "\<exists>ys. xs = c # ys"
proof -
  have "rev xs = takeWhile P (rev xs) @ dropWhile P (rev xs)" by simp
  then have "xs = rev (dropWhile P (rev xs)) @ rev (takeWhile P (rev xs))"
    by (metis rev_append rev_rev_ident)
  then have "xs = c # (cs @ rev (takeWhile P (rev xs)))"
    unfolding assms by simp
  then show ?thesis by (rule exI)
qed

lemma py_int_sign:
  assumes "py_int v = Some n"
  shows "(n < 0) = (minus_signed v \<and> n \<noteq> 0)"
proof (cases "rev (dropWhile int_space (rev (dropWhile int_space v)))")
  case Nil
  have "py_int v = None" unfolding py_int_def Nil by simp
  with assms show ?thesis by simp
next
  case (Cons c cs)
  obtain ys where "dropWhile int_space v = c # ys"
    using rev_dropWhile_rev_head [OF Cons] by blast
  then have m: "minus_signed v = (c = CHR ''-'')"
    by (simp add: minus_signed_def)
  have eq: "py_int v =
      (if c = CHR ''-'' then map_option (\<lambda>n. - int n) (digits cs)
       else if c = CHR ''+'' then map_option int (digits cs)
       else map_option int (digits (c # cs)))"
    unfolding py_int_def Cons by simp
  show ?thesis
  proof (cases "c = CHR ''-''")
    case True
    with assms eq obtain k where "n = - int k" by auto
    then show ?thesis using m True by simp
  next
    case False
    with assms eq obtain k where "n = int k" by (auto split: if_splits)
    then show ?thesis using m False by simp
  qed
qed

lemma rest_record_fields:
  "(k, x) \<in> set (snd (rest_record ls r)) \<Longrightarrow>
     (k, x) \<in> set r \<or>
     (\<exists>l\<in>set ls. \<exists>v n. split CHR '':'' l = [k, v] \<and> py_int v = Some n \<and> x = PyInt n)"
proof (induction ls arbitrary: r)
  case Nil
  then show ?case by simp
next
  case (Cons line ls)
  show ?case
  proof (cases "\<exists>d v. split CHR '':'' line = [d, v]")
    case False
    then have "rest_record (line # ls) r = (Inl ValueError, r)"
      by (auto split: list.splits)
    with Cons.prems show ?thesis by simp
  next
    case True
    then obtain d v where dv: "split CHR '':'' line = [d, v]" by blast
    show ?thesis
    proof (cases "py_int v")
      case None
      then have "rest_record (line # ls) r = rest_record ls r" using dv by simp
      with Cons.prems Cons.IH [of r] show ?thesis by auto
    next
      case (Some n)
      let ?r' = "AList.update d (PyInt n) r"
      have "rest_record (line # ls) r = rest_record ls ?r'" using dv Some by simp
      with Cons.prems Cons.IH [of ?r']
      consider "(k, x) \<in> set ?r'"
        | "\<exists>l\<in>set ls. \<exists>v n. split CHR '':'' l = [k, v] \<and> py_int v = Some n \<and> x = PyInt n"
        by auto
      then show ?thesis
      proof cases
        case 1
        then have "(k, x) = (d, PyInt n) \<or> (k, x) \<in> set r"
          using set_update_subset [of d "PyInt n" r] by auto
        then show ?thesis using dv Some by auto
      next
        case 2
        then show ?thesis by auto
      qed
    qed
  qed
qed

lemma header_int_value:
  "header_int l = Inr n \<Longrightarrow> \<exists>v. index (split CHR '':'' l) 1 = Inr v \<and> py_int v = Some n"
  by (auto simp: header_int_def split: sum.splits option.splits)

lemma header_record_fields:
  assumes "(k, x) \<in> set (snd (header_record l1 l2 l3 rest))" and "k \<noteq> ''organism''"
  shows "\<exists>l\<in>set (l2 # l3 # rest). \<exists>v n.
           index (split CHR '':'' l) 1 = Inr v \<and> py_int v = Some n \<and> x = PyInt n"
proof -
  let ?r1 = "[(''organism'', PyStr (spec_organism l1))]"
  have trailing: "\<exists>l\<in>set (l2 # l3 # rest). \<exists>v n.
           index (split CHR '':'' l) 1 = Inr v \<and> py_int v = Some n \<and> x = PyInt n"
    if "\<exists>l\<in>set rest. \<exists>v n. split CHR '':'' l = [k, v] \<and> py_int v = Some n \<and> x = PyInt n"
  proof -
    from that obtain l v n where l: "l \<in> set rest" "split CHR '':'' l = [k, v]"
      "py_int v = Some n" "x = PyInt n" by blast
    have "index (split CHR '':'' l) 1 = Inr v" using l(2) by (simp add: index_def)
    moreover have "l \<in> set (l2 # l3 # rest)" using l(1) by simp
    ultimately show ?thesis using l(3,4) by blast
  qed
  show ?thesis
  proof (cases "header_int l2")
    case (Inl e)
    then show ?thesis using assms by (simp add: header_record_def)
  next
    case c: (Inr c)
    then obtain vc where vc: "index (split CHR '':'' l2) 1 = Inr vc" "py_int vc = Some c"
      using header_int_value by blast
    show ?thesis
    proof (cases "header_int l3")
      case (Inl e)
      then have "x = PyInt c"
        using assms c by (simp add: header_record_def)
      moreover have "l2 \<in> set (l2 # l3 # rest)" by simp
      ultimately show ?thesis using vc by blast
    next
      case b: (Inr b)
      then obtain vb where vb: "index (split CHR '':'' l3) 1 = Inr vb" "py_int vb = Some b"
        using header_int_value by blast
      let ?r3 = "[(''organism'', PyStr (spec_organism l1)), (''contigs'', PyInt c),
                  (''bases'', PyInt b)]"
      have "header_record l1 l2 l3 rest = rest_record rest ?r3"
        using b c by (simp add: header_record_def)
      with assms(1) rest_record_fields [of k x rest ?r3]
      consider "(k, x) \<in> set ?r3"
        | "\<exists>l\<in>set rest. \<exists>v n. split CHR '':'' l = [k, v] \<and> py_int v = Some n \<and> x = PyInt n"
        by auto
      then show ?thesis
      proof cases
        case 1
        then have "x = PyInt c \<or> x = PyInt b"
          using assms(2) by auto
        moreover have "l2 \<in> set (l2 # l3 # rest)" "l3 \<in> set (l2 # l3 # rest)" by simp_all
        ultimately show ?thesis using vc vb by blast
      next
        case 2
        then show ?thesis by (rule trailing)
      qed
    qed
  qed
qed

lemma parse_prokka_entries:
  assumes "(s, r) \<in> set (prokka (snd (parse_prokka f st)))"
  shows "(s, r) \<in> set (prokka st) \<or>
         (\<exists>l1 l2 l3 rest. fh_lines f = l1 # l2 # l3 # rest
            \<and> r = snd (header_record l1 l2 l3 rest))"
proof (cases "recognized f")
  case False
  then show ?thesis using assms parse_prokka_unrecognized [of f st] by simp
next
  case True
  then obtain l1 l2 l3 rest where f: "fh_lines f = l1 # l2 # l3 # rest"
    and g: "startswith l1 ''organism:''" "startswith l2 ''contigs:''" "startswith l3 ''bases:''"
    unfolding recognized_iff by blast
  have "prokka (snd (parse_prokka f st)) =
       AList.update (s_name_of l1) (snd (header_record l1 l2 l3 rest)) (prokka st)"
    using parse_prokka_sim [OF f g, of st] by simp
  with assms have "(s, r) = (s_name_of l1, snd (header_record l1 l2 l3 rest))
      \<or> (s, r) \<in> set (prokka st)"
    using set_update_subset [of "s_name_of l1" "snd (header_record l1 l2 l3 rest)" "prokka st"]
    by auto
  then show ?thesis using f by auto
qed

lemma parse_all_entries:
  "(s, r) \<in> set (prokka (snd (parse_all files st))) \<Longrightarrow>
     (s, r) \<in> set (prokka st) \<or>
     (\<exists>f\<in>set files. \<exists>l1 l2 l3 rest. fh_lines f = l1 # l2 # l3 # rest
            \<and> r = snd (header_record l1 l2 l3 rest))"
proof (induction files arbitrary: st)
  case Nil
  then show ?case by simp
next
  case (Cons f fs)
  obtain res st1 where p: "parse_prokka f st = (res, st1)" by (cases "parse_prokka f st")
  have "(s, r) \<in> set (prokka st1) \<or>
     (\<exists>f\<in>set fs. \<exists>l1 l2 l3 rest. fh_lines f = l1 # l2 # l3 # rest
            \<and> r = snd (header_record l1 l2 l3 rest))"
  proof (cases res)
    case (Inl e)
    then show ?thesis using Cons.prems p by simp
  next
    case (Inr u)
    then show ?thesis using Cons.prems p Cons.IH [of st1] by simp
  qed
  moreover have "(s, r) \<in> set (prokka st1) \<Longrightarrow> (s, r) \<in> set (prokka st) \<or>
         (\<exists>l1 l2 l3 rest. fh_lines f = l1 # l2 # l3 # rest
            \<and> r = snd (header_record l1 l2 l3 rest))"
    using parse_prokka_entries [of s r f st] p by simp
  ultimately show ?case by auto
qed

section \<open>Evaluation of concrete inputs\<close>

lemmas string_eval = startswith_def strip_def rstrip_def isspace_def split_ws_def split_def
  split_max1_def index_def nl_def

lemmas parse_eval = parse_prokka_def readline_def organism_of_def s_name_of_def header_int_def
  set_field_def log_debug_def py_int_def int_space_def digits_def isdigit_def digit_val_def
  empty_state_def Let_def

section \<open>Extraction from the first line\<close>

lemma header_record_organism:
  assumes "\<forall>l\<in>set rest. \<not> startswith l ''organism:''"
  shows "map_of (snd (header_record l1 l2 l3 rest)) ''organism'' = Some (PyStr (spec_organism l1))"
proof -
  have "map_of (snd (rest_record rest r)) ''organism'' = map_of r ''organism''" for r
    using rest_record_other [of rest "''organism''" r] assms by simp
  then show ?thesis
    by (simp add: header_record_def Let_def update_conv' split: sum.splits)
qed

text \<open>
  Claim C1. For a file that passes the gate on its first three lines, the organism that
  \<^const>\<open>parse_prokka\<close> computes is the first two white-space tokens of the text after the
  first colon of the first line, joined by one blank, and the sample identifier is the
  tokens of the whole first line from token 3 on, joined by one blank: the empty string
  when the line has fewer than four tokens. Both values are the ones the parser logs, the
  table has its entry under that identifier, and the entry holds the organism as long as
  no later line starts with \<^verbatim>\<open>organism:\<close>.
\<close>

theorem extraction_of_organism_and_sample_id:
  fixes f :: log_file and st :: mstate
  assumes f: "fh_lines f = first_line # contigs_line # bases_line # rest"
    and g: "startswith first_line ''organism:''" "startswith contigs_line ''contigs:''"
      "startswith bases_line ''bases:''"
  shows "organism_of first_line = Inr (spec_organism first_line)
       \<and> s_name_of first_line = spec_sample_id first_line
       \<and> (length (split_ws first_line) < 4 \<longrightarrow> s_name_of first_line = [])
       \<and> Found_sample (spec_sample_id first_line) (spec_organism first_line)
            \<in> set (log (snd (parse_prokka f st)))
       \<and> ((\<forall>l\<in>set rest. \<not> startswith l ''organism:'') \<longrightarrow>
            get_field (prokka (snd (parse_prokka f st))) (spec_sample_id first_line) ''organism''
              = Some (PyStr (spec_organism first_line)))"
proof -
  obtain t where "first_line = ''organism:'' @ t" using g(1) startswith_append by blast
  then have a: "organism_of first_line = Inr (spec_organism first_line)"
    using organism_of_prefixed by simp
  have b: "s_name_of first_line = spec_sample_id first_line"
    by (simp add: s_name_of_def spec_sample_id_def)
  have c: "length (split_ws first_line) < 4 \<longrightarrow> s_name_of first_line = []"
    by (simp add: s_name_of_def)
  have d: "Found_sample (spec_sample_id first_line) (spec_organism first_line)
            \<in> set (log (snd (parse_prokka f st)))"
    using parse_prokka_log [OF f g, of st] b by simp
  have e: "get_field (prokka (snd (parse_prokka f st))) (spec_sample_id first_line) ''organism''
              = Some (PyStr (spec_organism first_line))"
    if "\<forall>l\<in>set rest. \<not> startswith l ''organism:''"
    using parse_prokka_sim [OF f g, of st] header_record_organism [OF that] b
    by (simp add: get_field_def update_conv')
  from a b c d e show ?thesis by blast
qed

theorem extraction_of_organism_and_sample_id_witness:
  "startswith (''organism: Escherichia coli strain K12_sample1'' @ nl) ''organism:''
   \<and> startswith (''contigs: 5'' @ nl) ''contigs:'' \<and> startswith (''bases: 4641652'' @ nl) ''bases:''
   \<and> organism_of (''organism: Escherichia coli strain K12_sample1'' @ nl) = Inr ''Escherichia coli''
   \<and> s_name_of (''organism: Escherichia coli strain K12_sample1'' @ nl) = ''strain K12_sample1''
   \<and> Found_sample ''strain K12_sample1'' ''Escherichia coli''
        \<in> set (log (snd (parse_prokka ecoli_report empty_state)))
   \<and> get_field (prokka (snd (parse_prokka ecoli_report empty_state))) ''strain K12_sample1''
        ''organism'' = Some (PyStr ''Escherichia coli'')"
  using extraction_of_organism_and_sample_id [of ecoli_report
      "''organism: Escherichia coli strain K12_sample1'' @ nl" "''contigs: 5'' @ nl"
      "''bases: 4641652'' @ nl" "[''CDS:4289'' @ nl, ''rRNA:22'' @ nl, ''tRNA:86'' @ nl]" empty_state]
  by (simp add: ecoli_report_def spec_organism_def spec_sample_id_def after_first_colon_def
      string_eval)

section \<open>Rejection\<close>

text \<open>
  Claim C2. When the first three lines of a file do not start, in this order and with
  this case, with \<^verbatim>\<open>organism:\<close>, \<^verbatim>\<open>contigs:\<close> and \<^verbatim>\<open>bases:\<close> (a file of fewer than
  three lines included), \<^const>\<open>parse_prokka\<close> returns without a record and leaves the
  table, and the whole state, as it was.
\<close>

theorem rejection_leaves_table_unchanged:
  fixes f :: log_file and st :: mstate
  assumes "\<not> (\<exists>l1 l2 l3 rest. fh_lines f = l1 # l2 # l3 # rest \<and> startswith l1 ''organism:''
                \<and> startswith l2 ''contigs:'' \<and> startswith l3 ''bases:'')"
  shows "parse_prokka f st = (Inr (), st)"
  using assms parse_prokka_unrecognized [of f st] by (simp add: recognized_iff)

theorem rejection_leaves_table_unchanged_witness:
  "\<not> startswith (''Organism: Escherichia coli strain K12_sample1'' @ nl) ''organism:''
   \<and> parse_prokka wrong_case_report \<lparr>prokka = [(''kept'', [(''organism'', PyStr ''A b'')])], log = []\<rparr>
       = (Inr (), \<lparr>prokka = [(''kept'', [(''organism'', PyStr ''A b'')])], log = []\<rparr>)"
  using rejection_leaves_table_unchanged [of wrong_case_report
      "\<lparr>prokka = [(''kept'', [(''organism'', PyStr ''A b'')])], log = []\<rparr>"]
  by (simp add: wrong_case_report_def startswith_def nl_def)

section \<open>Trailing lines that do not split in two\<close>

text \<open>
  Claim C3, evaluated on the code. The tuple assignment from \<^verbatim>\<open>line.split(":")\<close> is not
  inside the \<^verbatim>\<open>try\<close>. A trailing line without a colon raises \<^verbatim>\<open>ValueError\<close> to
  the caller: nothing is logged for it and the line after it is not read. A line with two
  colons does the same. Only a line with exactly one colon and a value that is not an
  integer is logged and skipped, and the line after it is stored.
\<close>

theorem line_without_colon_raises:
  "parse_prokka no_colon_report empty_state =
     (Inl ValueError,
      \<lparr>prokka = [(''strain S1'',
         [(''organism'', PyStr ''Escherichia coli''), (''contigs'', PyInt 5),
          (''bases'', PyInt 100), (''CDS'', PyInt 1)])],
       log = [Appears_prokka ''nocolon.txt'', Found_sample ''strain S1'' ''Escherichia coli'']\<rparr>)
   \<and> parse_prokka two_colon_report empty_state =
     (Inl ValueError,
      \<lparr>prokka = [(''strain S1'',
         [(''organism'', PyStr ''Escherichia coli''), (''contigs'', PyInt 5),
          (''bases'', PyInt 100)])],
       log = [Appears_prokka ''twocolon.txt'', Found_sample ''strain S1'' ''Escherichia coli'']\<rparr>)
   \<and> parse_prokka not_integer_report empty_state =
     (Inr (),
      \<lparr>prokka = [(''strain S1'',
         [(''organism'', PyStr ''Escherichia coli''), (''contigs'', PyInt 5),
          (''bases'', PyInt 100), (''tRNA'', PyInt 86)])],
       log = [Appears_prokka ''notint.txt'', Found_sample ''strain S1'' ''Escherichia coli'',
              Unable_to_parse (''sig_peptide:notanumber'' @ nl)]\<rparr>)"
proof -
  have a: "parse_prokka no_colon_report empty_state =
     (Inl ValueError,
      \<lparr>prokka = [(''strain S1'',
         [(''organism'', PyStr ''Escherichia coli''), (''contigs'', PyInt 5),
          (''bases'', PyInt 100), (''CDS'', PyInt 1)])],
       log = [Appears_prokka ''nocolon.txt'', Found_sample ''strain S1'' ''Escherichia coli'']\<rparr>)"
    by (simp add: no_colon_report_def parse_eval string_eval)
  have b: "parse_prokka two_colon_report empty_state =
     (Inl ValueError,
      \<lparr>prokka = [(''strain S1'',
         [(''organism'', PyStr ''Escherichia coli''), (''contigs'', PyInt 5),
          (''bases'', PyInt 100)])],
       log = [Appears_prokka ''twocolon.txt'', Found_sample ''strain S1'' ''Escherichia coli'']\<rparr>)"
    by (simp add: two_colon_report_def parse_eval string_eval)
  have c: "parse_prokka not_integer_report empty_state =
     (Inr (),
      \<lparr>prokka = [(''strain S1'',
         [(''organism'', PyStr ''Escherichia coli''), (''contigs'', PyInt 5),
          (''bases'', PyInt 100), (''tRNA'', PyInt 86)])],
       log = [Appears_prokka ''notint.txt'', Found_sample ''strain S1'' ''Escherichia coli'',
              Unable_to_parse (''sig_peptide:notanumber'' @ nl)]\<rparr>)"
    by (simp add: not_integer_report_def parse_eval string_eval)
  from a b c show ?thesis by simp
qed

section \<open>Records in the table\<close>

text \<open>
  Claim C4, as the code has it. The parser first stores an empty record and then fills it,
  so a second line whose value is not an integer leaves a record with the organism only,
  and the exception goes to the caller.
\<close>

theorem partial_record_counterexample:
  "parse_prokka bad_contigs_report empty_state =
     (Inl ValueError,
      \<lparr>prokka = [(''strain S1'', [(''organism'', PyStr ''Escherichia coli'')])],
       log = [Appears_prokka ''bad.txt'', Found_sample ''strain S1'' ''Escherichia coli'']\<rparr>)"
  by (simp add: bad_contigs_report_def parse_eval string_eval)

text \<open>
  Claim C4, amended. Whenever \<^const>\<open>parse_prokka\<close> returns normally, either the file did
  not pass the gate and the state is unchanged, or the table is the old one with the
  record of the file stored under the derived sample identifier, and that record has the
  fields \<^verbatim>\<open>organism\<close>, \<^verbatim>\<open>contigs\<close> and \<^verbatim>\<open>bases\<close>.
\<close>

theorem complete_record_or_unchanged:
  fixes f :: log_file and st :: mstate
  assumes "parse_prokka f st = (Inr (), st')"
  shows "(\<not> recognized f \<and> st' = st)
       \<or> (recognized f \<and>
            (\<exists>r. prokka st' = AList.update (s_name_of (fst (readline (fh_lines f)))) r (prokka st)
               \<and> {''organism'', ''contigs'', ''bases''} \<subseteq> fst ` set r))"
  using assms by (rule parse_prokka_returns)

theorem complete_record_or_unchanged_witness:
  "parse_prokka ecoli_report empty_state =
     (Inr (), \<lparr>prokka = [(''strain K12_sample1'',
         [(''organism'', PyStr ''Escherichia coli''), (''contigs'', PyInt 5),
          (''bases'', PyInt 4641652), (''CDS'', PyInt 4289), (''rRNA'', PyInt 22),
          (''tRNA'', PyInt 86)])],
        log = [Appears_prokka ''ecoli.txt'',
               Found_sample ''strain K12_sample1'' ''Escherichia coli'']\<rparr>)
   \<and> recognized ecoli_report
   \<and> (\<exists>r. [(''strain K12_sample1'',
         [(''organism'', PyStr ''Escherichia coli''), (''contigs'', PyInt 5),
          (''bases'', PyInt 4641652), (''CDS'', PyInt 4289), (''rRNA'', PyInt 22),
          (''tRNA'', PyInt 86)])] = AList.update ''strain K12_sample1'' r []
        \<and> {''organism'', ''contigs'', ''bases''} \<subseteq> fst ` set r)"
proof -
  have p: "parse_prokka ecoli_report empty_state =
     (Inr (), \<lparr>prokka = [(''strain K12_sample1'',
         [(''organism'', PyStr ''Escherichia coli''), (''contigs'', PyInt 5),
          (''bases'', PyInt 4641652), (''CDS'', PyInt 4289), (''rRNA'', PyInt 22),
          (''tRNA'', PyInt 86)])],
        log = [Appears_prokka ''ecoli.txt'',
               Found_sample ''strain K12_sample1'' ''Escherichia coli'']\<rparr>)"
    by (simp add: ecoli_report_def parse_eval string_eval)
  have r: "recognized ecoli_report"
    by (simp add: recognized_def ecoli_report_def readline_def startswith_def nl_def)
  have s: "s_name_of (fst (readline (fh_lines ecoli_report))) = ''strain K12_sample1''"
    by (simp add: ecoli_report_def readline_def s_name_of_def string_eval)
  show ?thesis
    using complete_record_or_unchanged [OF p] p r s by (simp add: empty_state_def)
qed

section \<open>No usable input\<close>

text \<open>
  Claim C5. \<^const>\<open>init\<close> raises \<^verbatim>\<open>UserWarning\<close> exactly when no file of the collection
  passes the gate, and that is exactly when the loop over the files ends normally with
  an empty table.
\<close>

theorem no_usable_input_signal:
  "(fst (init plot files) = Inl UserWarning) = (\<forall>f\<in>set files. \<not> recognized f)
   \<and> ((\<forall>f\<in>set files. \<not> recognized f)
        = (fst (parse_all files empty_state) = Inr ()
           \<and> prokka (snd (parse_all files empty_state)) = []))"
proof -
  let ?p = "parse_all files \<lparr>prokka = [], log = []\<rparr>"
  have a: "fst ?p = Inr () \<and> prokka (snd ?p) = []" if "\<forall>f\<in>set files. \<not> recognized f"
    using parse_all_unrecognized [OF that] by simp
  have b: "\<forall>f\<in>set files. \<not> recognized f" if "fst ?p = Inr () \<and> prokka (snd ?p) = []"
    using that parse_all_recognized [of files "\<lparr>prokka = [], log = []\<rparr>"] by blast
  have c: "(fst (init plot files) = Inl UserWarning) = (fst ?p = Inr () \<and> prokka (snd ?p) = [])"
    using parse_all_no_warning [of files "\<lparr>prokka = [], log = []\<rparr>"]
    by (cases ?p) (auto simp: init_def Let_def split: sum.splits)
  from a b c show ?thesis unfolding empty_state_def by blast
qed

theorem no_usable_input_signal_witness:
  "\<not> recognized wrong_case_report \<and> recognized ecoli_report
   \<and> fst (init count_plot [wrong_case_report]) = Inl UserWarning
   \<and> fst (init count_plot [wrong_case_report, ecoli_report]) \<noteq> Inl UserWarning"
proof -
  have a: "\<not> recognized wrong_case_report" and b: "recognized ecoli_report"
    by (simp_all add: recognized_def wrong_case_report_def ecoli_report_def readline_def
        startswith_def nl_def)
  show ?thesis
    using no_usable_input_signal [of count_plot "[wrong_case_report]"]
      no_usable_input_signal [of count_plot "[wrong_case_report, ecoli_report]"] a b
    by simp
qed

section \<open>Two files with one sample identifier\<close>

text \<open>
  Claim C6. When two files that pass the gate derive the same sample identifier, the
  record found under that identifier after both were parsed is the record that the second
  file alone gives on an empty table: nothing of the first record is left.
\<close>

theorem second_record_overwrites_first:
  fixes f1 f2 :: log_file and st :: mstate
  assumes "recognized f1" and "recognized f2"
    and "s_name_of (fst (readline (fh_lines f1))) = s_name_of (fst (readline (fh_lines f2)))"
  shows "map_of (prokka (snd (parse_prokka f2 (snd (parse_prokka f1 st)))))
           (s_name_of (fst (readline (fh_lines f1))))
       = map_of (prokka (snd (parse_prokka f2 empty_state)))
           (s_name_of (fst (readline (fh_lines f2))))"
proof -
  obtain l1 l2 l3 rest where f: "fh_lines f2 = l1 # l2 # l3 # rest"
    and g: "startswith l1 ''organism:''" "startswith l2 ''contigs:''" "startswith l3 ''bases:''"
    using assms(2) unfolding recognized_iff by blast
  have "map_of (prokka (snd (parse_prokka f2 st'))) (s_name_of l1)
        = Some (snd (header_record l1 l2 l3 rest))" for st'
    using parse_prokka_sim [OF f g, of st'] by (simp add: update_conv')
  then show ?thesis using assms(3) f by (simp add: readline_def)
qed

theorem second_record_overwrites_first_witness:
  "recognized first_report \<and> recognized second_report
   \<and> s_name_of (fst (readline (fh_lines first_report))) = ''strain S1''
   \<and> s_name_of (fst (readline (fh_lines second_report))) = ''strain S1''
   \<and> map_of (prokka (snd (parse_prokka first_report empty_state))) ''strain S1''
       = Some [(''organism'', PyStr ''Escherichia coli''), (''contigs'', PyInt 5),
               (''bases'', PyInt 100), (''CDS'', PyInt 1)]
   \<and> map_of (prokka (snd (parse_prokka second_report (snd (parse_prokka first_report empty_state)))))
         ''strain S1''
       = Some [(''organism'', PyStr ''Bacillus subtilis''), (''contigs'', PyInt 7),
               (''bases'', PyInt 200), (''rRNA'', PyInt 2)]"
proof -
  have r: "recognized first_report" "recognized second_report"
    by (simp_all add: recognized_def first_report_def second_report_def readline_def
        startswith_def nl_def)
  have s: "s_name_of (fst (readline (fh_lines first_report))) = ''strain S1''"
    "s_name_of (fst (readline (fh_lines second_report))) = ''strain S1''"
    by (simp_all add: first_report_def second_report_def readline_def s_name_of_def string_eval)
  have p1: "map_of (prokka (snd (parse_prokka first_report empty_state))) ''strain S1''
       = Some [(''organism'', PyStr ''Escherichia coli''), (''contigs'', PyInt 5),
               (''bases'', PyInt 100), (''CDS'', PyInt 1)]"
    by (simp add: first_report_def parse_eval string_eval)
  have p2: "map_of (prokka (snd (parse_prokka second_report empty_state))) ''strain S1''
       = Some [(''organism'', PyStr ''Bacillus subtilis''), (''contigs'', PyInt 7),
               (''bases'', PyInt 200), (''rRNA'', PyInt 2)]"
    by (simp add: second_report_def parse_eval string_eval)
  show ?thesis
    using second_record_overwrites_first [of first_report second_report empty_state] r s p1 p2
    by simp
qed

section \<open>The sign of stored values\<close>

text \<open>
  Claim C7, as the code has it. \<^verbatim>\<open>int\<close> accepts a sign, and nothing checks the result:
  the trailing line \<^verbatim>\<open>CDS:-5\<close> stores the integer \<open>-5\<close>.
\<close>

theorem negative_value_counterexample:
  "parse_prokka negative_cds_report empty_state =
     (Inr (), \<lparr>prokka = [(''strain S1'',
         [(''organism'', PyStr ''Escherichia coli''), (''contigs'', PyInt 5),
          (''bases'', PyInt 100), (''CDS'', PyInt (- 5))])],
        log = [Appears_prokka ''neg.txt'', Found_sample ''strain S1'' ''Escherichia coli'']\<rparr>)
   \<and> \<not> table_nonneg (prokka (snd (parse_prokka negative_cds_report empty_state)))"
proof -
  have p: "parse_prokka negative_cds_report empty_state =
     (Inr (), \<lparr>prokka = [(''strain S1'',
         [(''organism'', PyStr ''Escherichia coli''), (''contigs'', PyInt 5),
          (''bases'', PyInt 100), (''CDS'', PyInt (- 5))])],
        log = [Appears_prokka ''neg.txt'', Found_sample ''strain S1'' ''Escherichia coli'']\<rparr>)"
    by (simp add: negative_cds_report_def parse_eval string_eval)
  show ?thesis
    unfolding p by (simp add: table_nonneg_def nonneg_fields_def)
qed

text \<open>
  Claim C7, amended. Take a record of the table after the loop over the files that was
  not in the table before, and a field of it other than \<^verbatim>\<open>organism\<close>. Its value is an
  integer \<open>n\<close>, the one \<^verbatim>\<open>int\<close> gives for the text \<open>v\<close> after the first colon (up to a
  second colon, if there is one) of a line after the first line of one of the files.
  This \<open>n\<close> is negative exactly when \<open>v\<close> has a minus sign as its first character after
  leading white space and \<open>n\<close> is not zero.
\<close>

theorem stored_integers_and_their_sign:
  fixes files :: "log_file list" and st :: mstate
  assumes "(s, r) \<in> set (prokka (snd (parse_all files st)))"
    and "(k, x) \<in> set r" and "k \<noteq> ''organism''"
  shows "(s, r) \<in> set (prokka st)
       \<or> (\<exists>f\<in>set files. \<exists>l\<in>set (tl (fh_lines f)). \<exists>v n.
             index (split CHR '':'' l) 1 = Inr v \<and> py_int v = Some n \<and> x = PyInt n
             \<and> (n < 0) = (minus_signed v \<and> n \<noteq> 0))"
proof (cases "(s, r) \<in> set (prokka st)")
  case True
  then show ?thesis by simp
next
  case False
  then obtain f l1 l2 l3 rest where f: "f \<in> set files" "fh_lines f = l1 # l2 # l3 # rest"
    and r: "r = snd (header_record l1 l2 l3 rest)"
    using parse_all_entries [OF assms(1)] by blast
  from header_record_fields [OF assms(2) [unfolded r] assms(3)]
  obtain l v n where l: "l \<in> set (l2 # l3 # rest)"
    and v: "index (split CHR '':'' l) 1 = Inr v" "py_int v = Some n" "x = PyInt n"
    by blast
  have "l \<in> set (tl (fh_lines f))" using l f(2) by simp
  moreover have "(n < 0) = (minus_signed v \<and> n \<noteq> 0)" using v(2) by (rule py_int_sign)
  ultimately show ?thesis using f(1) v by blast
qed

theorem stored_integers_and_their_sign_witness:
  "(''strain S1'', [(''organism'', PyStr ''Escherichia coli''), (''contigs'', PyInt 5),
                    (''bases'', PyInt 100), (''CDS'', PyInt (- 5))])
      \<in> set (prokka (snd (parse_all [negative_cds_report] empty_state)))
   \<and> (\<exists>l\<in>set (tl (fh_lines negative_cds_report)). \<exists>v n.
         index (split CHR '':'' l) 1 = Inr v \<and> py_int v = Some n \<and> PyInt (- 5) = PyInt n
         \<and> (n < 0) = (minus_signed v \<and> n \<noteq> 0))"
proof -
  let ?r = "[(''organism'', PyStr ''Escherichia coli''), (''contigs'', PyInt 5),
             (''bases'', PyInt 100), (''CDS'', PyInt (- 5))]"
  have p: "prokka (snd (parse_all [negative_cds_report] empty_state)) = [(''strain S1'', ?r)]"
    by (simp add: negative_cds_report_def parse_eval string_eval)
  have a: "(''strain S1'', ?r) \<in> set (prokka (snd (parse_all [negative_cds_report] empty_state)))"
    unfolding p by simp
  have b: "(''CDS'', PyInt (- 5)) \<in> set ?r" by simp
  have c: "''CDS'' \<noteq> ''organism''" by simp
  have d: "(''strain S1'', ?r) \<notin> set (prokka empty_state)" by (simp add: empty_state_def)
  from stored_integers_and_their_sign [OF a b c] d a show ?thesis by simp
qed

section \<open>Chart categories\<close>

text \<open>
  Claim C8. The keys that \<^const>\<open>prokka_barplot\<close> hands to the plot are \<^verbatim>\<open>CDS\<close>,
  \<^verbatim>\<open>rRNA\<close>, \<^verbatim>\<open>tRNA\<close>, \<^verbatim>\<open>tmRNA\<close>, \<^verbatim>\<open>misc_RNA\<close>, \<^verbatim>\<open>sig_peptide\<close> in this order,
  whatever the table holds; \<^verbatim>\<open>contigs\<close> and \<^verbatim>\<open>bases\<close> are not among them. The category
  series of a record over these keys lists the categories the record has in that order,
  and two records with the same fields, inserted in any order, give the same series.
\<close>

theorem barplot_category_order:
  "map fst keys = [''CDS'', ''rRNA'', ''tRNA'', ''tmRNA'', ''misc_RNA'', ''sig_peptide'']
   \<and> ''contigs'' \<notin> set (map fst keys) \<and> ''bases'' \<notin> set (map fst keys)
   \<and> prokka_barplot plot st = plot (prokka st) keys pconfig
   \<and> map fst (category_series (map fst keys) r)
       = filter (\<lambda>k. k \<in> fst ` set r)
           [''CDS'', ''rRNA'', ''tRNA'', ''tmRNA'', ''misc_RNA'', ''sig_peptide'']
   \<and> (map_of r = map_of r' \<longrightarrow>
        category_series (map fst keys) r = category_series (map fst keys) r')"
proof -
  have k: "map fst keys = [''CDS'', ''rRNA'', ''tRNA'', ''tmRNA'', ''misc_RNA'', ''sig_peptide'']"
    by (simp add: keys_def)
  have a: "''contigs'' \<notin> set (map fst keys)" "''bases'' \<notin> set (map fst keys)"
    unfolding k by simp_all
  have b: "prokka_barplot plot st = plot (prokka st) keys pconfig"
    by (simp add: prokka_barplot_def)
  have c: "map fst (category_series (map fst keys) r)
       = filter (\<lambda>k. k \<in> fst ` set r)
           [''CDS'', ''rRNA'', ''tRNA'', ''tmRNA'', ''misc_RNA'', ''sig_peptide'']"
    unfolding category_series_keys k ..
  have d: "map_of r = map_of r' \<longrightarrow>
        category_series (map fst keys) r = category_series (map fst keys) r'"
    by (simp add: category_series_def)
  from k a b c d show ?thesis by blast
qed

theorem barplot_category_order_witness:
  "map_of [(''tRNA'', PyInt 86), (''contigs'', PyInt 5), (''CDS'', PyInt 4289)]
     = map_of [(''CDS'', PyInt 4289), (''tRNA'', PyInt 86), (''contigs'', PyInt 5)]
   \<and> category_series (map fst keys) [(''tRNA'', PyInt 86), (''contigs'', PyInt 5), (''CDS'', PyInt 4289)]
     = [(''CDS'', PyInt 4289), (''tRNA'', PyInt 86)]"
proof -
  have m: "map_of [(''tRNA'', PyInt 86), (''contigs'', PyInt 5), (''CDS'', PyInt 4289)]
     = map_of [(''CDS'', PyInt 4289), (''tRNA'', PyInt 86), (''contigs'', PyInt 5)]"
    by (rule ext) simp
  have e: "category_series (map fst keys) [(''CDS'', PyInt 4289), (''tRNA'', PyInt 86), (''contigs'', PyInt 5)]
     = [(''CDS'', PyInt 4289), (''tRNA'', PyInt 86)]"
    by (simp add: category_series_def keys_def map_filter_simps)
  from barplot_category_order [of "\<lambda>t k c. ()" empty_state
        "[(''tRNA'', PyInt 86), (''contigs'', PyInt 5), (''CDS'', PyInt 4289)]"
        "[(''CDS'', PyInt 4289), (''tRNA'', PyInt 86), (''contigs'', PyInt 5)]"]
  have "map_of [(''tRNA'', PyInt 86), (''contigs'', PyInt 5), (''CDS'', PyInt 4289)]
          = map_of [(''CDS'', PyInt 4289), (''tRNA'', PyInt 86), (''contigs'', PyInt 5)]
        \<longrightarrow> category_series (map fst keys)
              [(''tRNA'', PyInt 86), (''contigs'', PyInt 5), (''CDS'', PyInt 4289)]
          = category_series (map fst keys)
              [(''CDS'', PyInt 4289), (''tRNA'', PyInt 86), (''contigs'', PyInt 5)]"
    by (elim conjE)
  with m e show ?thesis by (simp only: simp_thms)
qed

section \<open>Columns of the general statistics table\<close>

text \<open>
  Claim C9. The headers are declared in the order \<^verbatim>\<open>organism\<close>, \<^verbatim>\<open>bases\<close>, \<^verbatim>\<open>CDS\<close>,
  \<^verbatim>\<open>tRNA\<close>, \<^verbatim>\<open>rRNA\<close>, \<^verbatim>\<open>tmRNA\<close>, \<^verbatim>\<open>sig_peptide\<close>, with no column for \<^verbatim>\<open>contigs\<close>.
  When \<^const>\<open>init\<close> returns, these headers go to the general statistics table together
  with the table of records, and every record of that table has the field \<^verbatim>\<open>contigs\<close>.
\<close>

theorem general_stats_column_order:
  "map fst headers = [''organism'', ''bases'', ''CDS'', ''tRNA'', ''rRNA'', ''tmRNA'', ''sig_peptide'']
   \<and> ''contigs'' \<notin> set (map fst headers)
   \<and> (init plot files = (Inr out, st) \<longrightarrow>
        general_stats_headers out = headers \<and> general_stats_data out = prokka st
        \<and> has_contigs (general_stats_data out))"
proof -
  have h: "map fst headers = [''organism'', ''bases'', ''CDS'', ''tRNA'', ''rRNA'', ''tmRNA'', ''sig_peptide'']"
    by (simp add: headers_def)
  have c: "''contigs'' \<notin> set (map fst headers)"
    unfolding h by simp
  have i: "general_stats_headers out = headers \<and> general_stats_data out = prokka st
        \<and> has_contigs (general_stats_data out)"
    if "init plot files = (Inr out, st)"
  proof -
    obtain res st0 where p: "parse_all files \<lparr>prokka = [], log = []\<rparr> = (res, st0)"
      by (cases "parse_all files \<lparr>prokka = [], log = []\<rparr>")
    with that have r: "res = Inr ()" "st = log_info (Found_logs (length (prokka st0))) st0"
      "general_stats_headers out = headers" "general_stats_data out = prokka st"
      by (auto simp: init_def Let_def split: sum.splits if_splits)
    have "has_contigs (prokka \<lparr>prokka = [], log = []\<rparr>)" by (simp add: has_contigs_def)
    from parse_all_has_contigs [OF this] p r(1) have "has_contigs (prokka st0)" by simp
    then show ?thesis using r by (simp add: log_info_def)
  qed
  from h c i show ?thesis by blast
qed

theorem general_stats_column_order_witness:
  "fst (init count_plot [wrong_case_report, ecoli_report]) =
     Inr \<lparr>data_file = ([(''strain K12_sample1'',
               [(''organism'', PyStr ''Escherichia coli''), (''contigs'', PyInt 5),
                (''bases'', PyInt 4641652), (''CDS'', PyInt 4289), (''rRNA'', PyInt 22),
                (''tRNA'', PyInt 86)])], ''multiqc_prokka''),
          general_stats_data = [(''strain K12_sample1'',
               [(''organism'', PyStr ''Escherichia coli''), (''contigs'', PyInt 5),
                (''bases'', PyInt 4641652), (''CDS'', PyInt 4289), (''rRNA'', PyInt 22),
                (''tRNA'', PyInt 86)])],
          general_stats_headers = headers,
          intro = 1\<rparr>
   \<and> has_contigs [(''strain K12_sample1'',
               [(''organism'', PyStr ''Escherichia coli''), (''contigs'', PyInt 5),
                (''bases'', PyInt 4641652), (''CDS'', PyInt 4289), (''rRNA'', PyInt 22),
                (''tRNA'', PyInt 86)])]"
proof -
  let ?tbl = "[(''strain K12_sample1'',
               [(''organism'', PyStr ''Escherichia coli''), (''contigs'', PyInt 5),
                (''bases'', PyInt 4641652), (''CDS'', PyInt 4289), (''rRNA'', PyInt 22),
                (''tRNA'', PyInt 86)])]"
  let ?out = "\<lparr>data_file = (?tbl, ''multiqc_prokka''), general_stats_data = ?tbl,
               general_stats_headers = headers, intro = 1::nat\<rparr>"
  let ?st = "\<lparr>prokka = ?tbl,
              log = [Appears_prokka ''ecoli.txt'',
                     Found_sample ''strain K12_sample1'' ''Escherichia coli'', Found_logs 1]\<rparr>"
  have p: "parse_prokka wrong_case_report \<lparr>prokka = [], log = []\<rparr> = (Inr (), \<lparr>prokka = [], log = []\<rparr>)"
    by (simp add: wrong_case_report_def parse_eval string_eval)
  have q: "parse_prokka ecoli_report \<lparr>prokka = [], log = []\<rparr> =
     (Inr (), \<lparr>prokka = ?tbl,
        log = [Appears_prokka ''ecoli.txt'',
               Found_sample ''strain K12_sample1'' ''Escherichia coli'']\<rparr>)"
    by (simp add: ecoli_report_def parse_eval string_eval)
  have i: "init count_plot [wrong_case_report, ecoli_report] = (Inr ?out, ?st)"
    by (simp add: init_def p q log_info_def prokka_barplot_def count_plot_def)
  from general_stats_column_order [of count_plot "[wrong_case_report, ecoli_report]" ?out ?st] i
  have "has_contigs (general_stats_data ?out)" by blast
  then show ?thesis using i by simp
qed

section \<open>Trailing lines that redefine a field\<close>

text \<open>
  Claim C10. In a file that passes the gate and whose second and third line hold
  integers, take a trailing line \<open>d:v\<close> with one colon whose value \<open>v\<close> is the integer
  \<open>n\<close>, reached through lines with one colon each, and followed by no line that starts
  with \<open>d:\<close>. Then the record of the file holds \<open>n\<close> under the name \<open>d\<close>, taken as it
  stands: under \<^verbatim>\<open>organism\<close>, \<^verbatim>\<open>contigs\<close> or \<^verbatim>\<open>bases\<close> it replaces the value of the
  first three lines, and a name with a leading blank is a field of its own.
\<close>

theorem trailing_line_redefines_field:
  fixes f :: log_file and st :: mstate
  assumes f: "fh_lines f = l1 # l2 # l3 # pre @ [d @ '':'' @ v] @ post"
    and g: "startswith l1 ''organism:''" "startswith l2 ''contigs:''" "startswith l3 ''bases:''"
    and h: "header_int l2 = Inr c" "header_int l3 = Inr b"
    and pre: "\<forall>l\<in>set pre. count_list l CHR '':'' = 1"
    and d: "CHR '':'' \<notin> set d" "CHR '':'' \<notin> set v" "py_int v = Some n"
    and post: "\<forall>l\<in>set post. \<not> startswith l (d @ '':'')"
  shows "get_field (prokka (snd (parse_prokka f st))) (s_name_of l1) d = Some (PyInt n)"
proof -
  let ?rest = "pre @ [d @ '':'' @ v] @ post"
  have "header_record l1 l2 l3 ?rest =
      rest_record ?rest [(''organism'', PyStr (spec_organism l1)), (''contigs'', PyInt c),
                         (''bases'', PyInt b)]"
    using h by (simp add: header_record_def)
  then have "map_of (snd (header_record l1 l2 l3 ?rest)) d = Some (PyInt n)"
    using rest_record_redefines [OF pre d post] by simp
  then show ?thesis
    using parse_prokka_sim [OF f g, of st] by (simp add: get_field_def update_conv')
qed

theorem trailing_line_redefines_field_witness:
  "get_field (prokka (snd (parse_prokka redefining_report empty_state))) ''strain S1'' ''organism''
     = Some (PyInt 7)
   \<and> get_field (prokka (snd (parse_prokka redefining_report empty_state))) ''strain S1'' '' CDS''
     = Some (PyInt 5)
   \<and> get_field (prokka (snd (parse_prokka redefining_report empty_state))) ''strain S1'' ''CDS''
     = Some (PyInt 1)"
proof -
  have s: "s_name_of (''organism: Escherichia coli strain S1'' @ nl) = ''strain S1''"
    by (simp add: s_name_of_def string_eval)
  have hc: "header_int (''contigs: 5'' @ nl) = Inr 5" and hb: "header_int (''bases: 100'' @ nl) = Inr 100"
    by (simp_all add: parse_eval string_eval)
  have i7: "py_int (''7'' @ nl) = Some 7" and i5: "py_int (''5'' @ nl) = Some 5"
    and i1: "py_int (''1'' @ nl) = Some 1"
    by (simp_all add: parse_eval string_eval)
  have a: "get_field (prokka (snd (parse_prokka redefining_report empty_state)))
      (s_name_of (''organism: Escherichia coli strain S1'' @ nl)) ''organism'' = Some (PyInt 7)"
    by (rule trailing_line_redefines_field [where ?l2.0 = "''contigs: 5'' @ nl"
          and ?l3.0 = "''bases: 100'' @ nl" and pre = "[''CDS:1'' @ nl]" and v = "''7'' @ nl"
          and post = "['' CDS:5'' @ nl]", OF _ _ _ _ hc hb _ _ _ i7])
      (simp_all add: redefining_report_def startswith_def nl_def)
  have b: "get_field (prokka (snd (parse_prokka redefining_report empty_state)))
      (s_name_of (''organism: Escherichia coli strain S1'' @ nl)) '' CDS'' = Some (PyInt 5)"
    by (rule trailing_line_redefines_field [where ?l2.0 = "''contigs: 5'' @ nl"
          and ?l3.0 = "''bases: 100'' @ nl" and pre = "[''CDS:1'' @ nl, ''organism:7'' @ nl]"
          and v = "''5'' @ nl" and post = "[]", OF _ _ _ _ hc hb _ _ _ i5])
      (simp_all add: redefining_report_def startswith_def nl_def)
  have c: "get_field (prokka (snd (parse_prokka redefining_report empty_state)))
      (s_name_of (''organism: Escherichia coli strain S1'' @ nl)) ''CDS'' = Some (PyInt 1)"
    by (rule trailing_line_redefines_field [where ?l2.0 = "''contigs: 5'' @ nl"
          and ?l3.0 = "''bases: 100'' @ nl" and pre = "[]"
          and v = "''1'' @ nl" and post = "[''organism:7'' @ nl, '' CDS:5'' @ nl]",
          OF _ _ _ _ hc hb _ _ _ i1])
      (simp_all add: redefining_report_def startswith_def nl_def)
  from a b c show ?thesis unfolding s by simp
qed

end
